theory Spec2Isabelle
  imports Main "HOL-Library.Finite_Map"
begin

section \<open>Data model of \<^verbatim>\<open>packages/resources/src/Function.ts\<close>\<close>

text \<open>
  A property of a JavaScript object is in one of three states, and the code tells them
  apart: the spread \<^verbatim>\<open>{...a, ...b}\<close> copies every own property of \<^verbatim>\<open>b\<close>, also one
  whose value is \<^verbatim>\<open>undefined\<close>, while \<^verbatim>\<open>x || d\<close> and \<^verbatim>\<open>!x\<close> treat an absent
  property and an \<^verbatim>\<open>undefined\<close> one alike.
\<close>

datatype 'a slot = Absent | Undefined | Defined 'a

text \<open>The spread of one property: \<^verbatim>\<open>{...a, ...b}.x\<close>.\<close>

fun spread :: "'a slot \<Rightarrow> 'a slot \<Rightarrow> 'a slot" where
  "spread a Absent = a"
| "spread a b = b"

text \<open>
  \<^verbatim>\<open>number | Size\<close> and \<^verbatim>\<open>number | Duration\<close>: a number, or a string expression such
  as \<^verbatim>\<open>"512 MB"\<close> or \<^verbatim>\<open>"5 seconds"\<close>. Numbers are modelled as integers, of which only
  \<open>0\<close> is falsy.
\<close>

datatype quantity = Num int | Expr string

text \<open>
  The values of the CDK. The conversions \<^verbatim>\<open>toCdkSize\<close> and \<^verbatim>\<open>toCdkDuration\<close> of
  \<^verbatim>\<open>util/size.js\<close> and \<^verbatim>\<open>util/duration.js\<close> are kept symbolic.
\<close>

datatype cdkSize = Mebibytes int | ToCdkSize string
datatype cdkDuration = Seconds int | ToCdkDuration string

datatype architecture = Arm_64 | X86_64

datatype functionName = NameString string | NameCallback string

record copyFilesEntry =
  copy_from :: string
  copy_to :: "string option"

text \<open>
  \<^verbatim>\<open>FunctionBundleProp\<close>: a boolean, or a configuration object, of which the code of this
  file reads \<^verbatim>\<open>copyFiles\<close> and \<^verbatim>\<open>experimentalUseProvidedRuntime\<close>.
\<close>

datatype functionBundleProp =
  BundleFlag bool
| BundleConfig "copyFilesEntry list option" "string option"

datatype urlProp = UrlFlag bool | UrlConfig "string option"

text \<open>
  An SST construct as the binding engine sees it: \<open>bindEnv\<close> and \<open>bindPerms\<close> are
  what \<^verbatim>\<open>bindEnvironment(c)\<close> and \<^verbatim>\<open>bindPermissions(c)\<close> of
  \<^verbatim>\<open>util/functionBinding.js\<close> return for it, and \<open>isJob\<close> is \<^verbatim>\<open>c instanceof Job\<close>.
\<close>

record sstConstruct =
  constructId :: string
  isJob :: bool
  bindEnv :: "(string \<times> string) list"
  bindPerms :: "(string \<times> string list) list"

text \<open>\<^verbatim>\<open>Permissions = "*" | Permission[]\<close>.\<close>

datatype permission =
  PermAction string
| PermConstruct sstConstruct
| PermStatement "string list" "string list"

datatype permissions = Wildcard | Entries "permission list"

text \<open>
  A stack, and a layer construct: its node id, its tree-unique node address, the stack
  it lives in and its version ARN: a literal string, an unresolved token, or the token
  that \<^verbatim>\<open>ssm.StringParameter.valueForStringParameter\<close> gives for a parameter name.
\<close>

record stackRef =
  stackId :: string
  stackPath :: string

datatype arn = ArnLiteral string | ArnToken string | ArnFromParameter string

record layerVersion =
  layerId :: string
  layerAddr :: string
  layerStack :: stackRef
  layerVersionArn :: arn

datatype layerProp = LayerArn string | LayerConstruct layerVersion

record FunctionProps =
  architecture :: "architecture slot"
  functionName :: "functionName slot"
  handler :: "string slot"
  srcPath :: "string slot"
  runtime :: "string slot"
  diskSize :: "quantity slot"
  memorySize :: "quantity slot"
  timeout :: "quantity slot"
  tracing :: "string slot"
  enableLiveDev :: "bool slot"
  environment :: "(string, string) fmap slot"
  bundle' :: "functionBundleProp slot"
  bind :: "sstConstruct list slot"
  config :: "sstConstruct list slot"
  permissions :: "permissions slot"
  url :: "urlProp slot"
  layers :: "layerProp list slot"
  logRetention :: "string slot"
  retryAttempts :: "int slot"

text \<open>
  \<open>retryAttempts\<close> stands for the options inherited from \<^verbatim>\<open>lambda.FunctionOptions\<close>:
  the code of this file passes them through unchanged.
\<close>

definition emptyProps :: FunctionProps where
  "emptyProps = \<lparr> architecture = Absent, functionName = Absent, handler = Absent,
     srcPath = Absent, runtime = Absent, diskSize = Absent, memorySize = Absent,
     timeout = Absent, tracing = Absent, enableLiveDev = Absent, environment = Absent,
     bundle' = Absent, bind = Absent, config = Absent, permissions = Absent, url = Absent,
     layers = Absent, logRetention = Absent, retryAttempts = Absent \<rparr>"

section \<open>\<^verbatim>\<open>Function.mergeProps\<close>\<close>

text \<open>\<^verbatim>\<open>x || d\<close> for a property whose defined values are all truthy (objects, arrays).\<close>

fun orElse :: "'a slot \<Rightarrow> 'a \<Rightarrow> 'a" where
  "orElse (Defined v) d = v"
| "orElse _ d = d"

text \<open>\<^verbatim>\<open>baseProps || {}\<close>.\<close>

fun orEmpty :: "FunctionProps option \<Rightarrow> FunctionProps" where
  "orEmpty None = emptyProps"
| "orEmpty (Some p) = p"

text \<open>\<^verbatim>\<open>(baseProps?.permissions || []).concat(props?.permissions || [])\<close>, reached only
  when neither side is \<^verbatim>\<open>"*"\<close>.\<close>

fun permissionEntries :: "permissions slot \<Rightarrow> permission list" where
  "permissionEntries (Defined (Entries ps)) = ps"
| "permissionEntries _ = []"

definition mergeProps :: "FunctionProps option \<Rightarrow> FunctionProps option \<Rightarrow> FunctionProps" where
  "mergeProps baseProps props =
    (let b = orEmpty baseProps; p = orEmpty props;
         env = orElse (environment b) fmempty ++\<^sub>f orElse (environment p) fmempty;
         environmentProp = (if fmdom env = {||} then Absent else Defined env);
         lrs = orElse (layers b) [] @ orElse (layers p) [];
         layersProp = (if lrs = [] then Absent else Defined lrs);
         cfg = orElse (config b) [] @ orElse (config p) [];
         configProp = (if cfg = [] then Absent else Defined cfg);
         bnd = orElse (bind b) [] @ orElse (bind p) [];
         bindProp = (if bnd = [] then Absent else Defined bnd);
         permissionsProp =
           (if permissions b = Defined Wildcard then Defined Wildcard
            else if permissions p = Defined Wildcard then Defined Wildcard
            else (let perms = permissionEntries (permissions b) @ permissionEntries (permissions p)
                  in if perms = [] then Absent else Defined (Entries perms)))
     in \<lparr> architecture = spread (architecture b) (architecture p),
          functionName = spread (functionName b) (functionName p),
          handler = spread (handler b) (handler p),
          srcPath = spread (srcPath b) (srcPath p),
          runtime = spread (runtime b) (runtime p),
          diskSize = spread (diskSize b) (diskSize p),
          memorySize = spread (memorySize b) (memorySize p),
          timeout = spread (timeout b) (timeout p),
          tracing = spread (tracing b) (tracing p),
          enableLiveDev = spread (enableLiveDev b) (enableLiveDev p),
          environment = spread (spread (environment b) (environment p)) environmentProp,
          bundle' = spread (bundle' b) (bundle' p),
          bind = spread (spread (bind b) (bind p)) bindProp,
          config = spread (spread (config b) (config p)) configProp,
          permissions = spread (spread (permissions b) (permissions p)) permissionsProp,
          url = spread (url b) (url p),
          layers = spread (spread (layers b) (layers p)) layersProp,
          logRetention = spread (logRetention b) (logRetention p),
          retryAttempts = spread (retryAttempts b) (retryAttempts p) \<rparr>)"


text \<open>
  The constructor's loop over the defaults of the stack:
  \<^verbatim>\<open>defaultFunctionProps.slice().reverse().forEach(per => { props = mergeProps(per, props) })\<close>.
\<close>

definition applyDefaults :: "FunctionProps list \<Rightarrow> FunctionProps \<Rightarrow> FunctionProps" where
  "applyDefaults defaults props =
     foldl (\<lambda>props per. mergeProps (Some per) (Some props)) props (rev defaults)"



text \<open>What \<open>mergeProps\<close> computes for one property of each kind.\<close>

definition mergedEnvironment ::
  "(string, string) fmap slot \<Rightarrow> (string, string) fmap slot \<Rightarrow> (string, string) fmap slot" where
  "mergedEnvironment a b =
     spread (spread a b)
       (if fmdom (orElse a fmempty ++\<^sub>f orElse b fmempty) = {||} then Absent
        else Defined (orElse a fmempty ++\<^sub>f orElse b fmempty))"

definition mergedList :: "'a list slot \<Rightarrow> 'a list slot \<Rightarrow> 'a list slot" where
  "mergedList a b =
     spread (spread a b)
       (if orElse a [] @ orElse b [] = [] then Absent else Defined (orElse a [] @ orElse b []))"

definition mergedPermissions :: "permissions slot \<Rightarrow> permissions slot \<Rightarrow> permissions slot" where
  "mergedPermissions a b =
     spread (spread a b)
       (if a = Defined Wildcard then Defined Wildcard
        else if b = Defined Wildcard then Defined Wildcard
        else if permissionEntries a @ permissionEntries b = [] then Absent
        else Defined (Entries (permissionEntries a @ permissionEntries b)))"

section \<open>The normalizers\<close>

text \<open>\<^verbatim>\<open>memorySize || 1024\<close>: the number \<open>0\<close>, like an absent value, gives the default.\<close>

fun normalizeMemorySize :: "quantity slot \<Rightarrow> cdkSize" where
  "normalizeMemorySize (Defined (Expr s)) = ToCdkSize s"
| "normalizeMemorySize (Defined (Num n)) = Mebibytes (if n = 0 then 1024 else n)"
| "normalizeMemorySize _ = Mebibytes 1024"

fun normalizeDiskSize :: "quantity slot \<Rightarrow> cdkSize" where
  "normalizeDiskSize (Defined (Expr s)) = ToCdkSize s"
| "normalizeDiskSize (Defined (Num n)) = Mebibytes (if n = 0 then 512 else n)"
| "normalizeDiskSize _ = Mebibytes 512"

fun normalizeTimeout :: "quantity slot \<Rightarrow> cdkDuration" where
  "normalizeTimeout (Defined (Expr s)) = ToCdkDuration s"
| "normalizeTimeout (Defined (Num n)) = Seconds (if n = 0 then 10 else n)"
| "normalizeTimeout _ = Seconds 10"


section \<open>Errors, runtimes and source paths\<close>

text \<open>
  The code throws plain \<^verbatim>\<open>Error\<close> objects; they are named after the error taxonomy.
  \<open>ConstructAlreadyExists\<close> is the error of the constructs library when a child is
  added under an id that its parent already has.
\<close>

datatype error =
  MissingHandler
| UnsupportedRuntime
| InvalidBundleConfig
| MissingCopySource
| InvalidCopyDestination
| ConstructAlreadyExists

text \<open>The keys of the table \<^verbatim>\<open>supportedRuntimes\<close>; every value of the table is truthy.\<close>

definition supportedRuntimes :: "string list" where
  "supportedRuntimes =
     [''nodejs'', ''nodejs4.3'', ''nodejs6.10'', ''nodejs8.10'', ''nodejs10.x'',
      ''nodejs12.x'', ''nodejs14.x'', ''nodejs16.x'',
      ''python2.7'', ''python3.6'', ''python3.7'', ''python3.8'', ''python3.9'',
      ''dotnetcore1.0'', ''dotnetcore2.0'', ''dotnetcore2.1'', ''dotnetcore3.1'', ''dotnet6'',
      ''java8'', ''java11'', ''go1.x'']"

text \<open>
  \<^verbatim>\<open>supportedRuntimes\<close> is an object literal, so the lookup
  \<^verbatim>\<open>supportedRuntimes[runtime]\<close> also finds the properties that every object inherits
  from \<^verbatim>\<open>Object.prototype\<close>, and all of them are truthy.
\<close>

definition objectPrototypeKeys :: "string list" where
  "objectPrototypeKeys =
     [''constructor'', ''__defineGetter__'', ''__defineSetter__'', ''hasOwnProperty'',
      ''__lookupGetter__'', ''__lookupSetter__'', ''isPrototypeOf'', ''propertyIsEnumerable'',
      ''toString'', ''valueOf'', ''__proto__'', ''toLocaleString'']"

definition supportedRuntimesLookup :: "string \<Rightarrow> bool" where
  "supportedRuntimesLookup key \<longleftrightarrow> key \<in> set supportedRuntimes \<or> key \<in> set objectPrototypeKeys"

text \<open>\<^verbatim>\<open>s || d\<close> for a string property: the empty string is falsy.\<close>

fun orString :: "string slot \<Rightarrow> string \<Rightarrow> string" where
  "orString (Defined s) d = (if s = [] then d else s)"
| "orString _ d = d"

definition normalizeRuntime :: "string slot \<Rightarrow> error + string" where
  "normalizeRuntime rt =
     (let rt = orString rt ''nodejs14.x''
      in if \<not> supportedRuntimesLookup rt then Inl UnsupportedRuntime else Inr rt)"

text \<open>\<^verbatim>\<open>srcPath.replace(/\/+$/, "")\<close>: the trailing slashes are removed.\<close>

definition normalizeSrcPath :: "string \<Rightarrow> string" where
  "normalizeSrcPath p = rev (dropWhile (\<lambda>c. c = CHR ''/'') (rev p))"

definition startsWith :: "string \<Rightarrow> string \<Rightarrow> bool" where
  "startsWith s p \<longleftrightarrow> take (length p) s = p"

text \<open>\<^verbatim>\<open>toUpperCase\<close> on the ASCII letters, which the keys of the enumerations are made of.\<close>

definition toUpperCase :: "string \<Rightarrow> string" where
  "toUpperCase s =
     map (\<lambda>c. let n = (of_char c :: nat) in if 97 \<le> n \<and> n \<le> 122 then char_of (n - 32) else c) s"

section \<open>\<^verbatim>\<open>Function.copyFiles\<close>\<close>








section \<open>\<^verbatim>\<open>Function.handleImportedLayer\<close> and \<^verbatim>\<open>Function.buildLayers\<close>\<close>

text \<open>
  The construct tree, as far as this file reads and writes it: the children that
  \<^verbatim>\<open>tryFindChild\<close> looks up, by the path of the parent and the id of the child, and the
  dependencies between stacks. A construct of the tree is identified by this pair.
\<close>

datatype node =
  StringParameter string arn
| LayerImport arn

record ConstructTree =
  children :: "(string \<times> string, node) fmap"
  dependencies :: "(string \<times> string) fset"

definition tryFindChild :: "ConstructTree \<Rightarrow> string \<Rightarrow> string \<Rightarrow> node option" where
  "tryFindChild t parent cid = fmlookup (children t) (parent, cid)"

definition addChild :: "string \<Rightarrow> string \<Rightarrow> node \<Rightarrow> ConstructTree \<Rightarrow> ConstructTree" where
  "addChild parent cid n t = t\<lparr>children := fmupd (parent, cid) n (children t)\<rparr>"

definition addDependency :: "stackRef \<Rightarrow> stackRef \<Rightarrow> ConstructTree \<Rightarrow> ConstructTree" where
  "addDependency source target t =
     t\<lparr>dependencies := finsert (stackPath source, stackPath target) (dependencies t)\<rparr>"

text \<open>\<^verbatim>\<open>cdk.Token.isUnresolved\<close>.\<close>

fun isUnresolved :: "arn \<Rightarrow> bool" where
  "isUnresolved (ArnLiteral _) = False"
| "isUnresolved _ = True"

record App =
  mode :: string
  debugIncreaseTimeout :: bool
  skipBuild :: bool
  appName :: string
  stage :: string

text \<open>
  A scope: the application at the root of its tree, its node path, its stack and the
  \<^verbatim>\<open>defaultFunctionProps\<close> of that stack.
\<close>

record Scope =
  scopeApp :: App
  scopePath :: string
  scopeStack :: stackRef
  defaultFunctionProps :: "FunctionProps list"

text \<open>A layer handed to the base class: the caller's own construct, or a child of the tree.\<close>

datatype resolvedLayer = Original layerVersion | Child string string

definition parameterId :: "layerVersion \<Rightarrow> string" where
  "parameterId layer = layerId layer @ ''Arn-'' @ layerAddr layer"

definition parameterName :: "layerVersion \<Rightarrow> string" where
  "parameterName layer = ''/layers/'' @ stackId (layerStack layer) @ ''/'' @ parameterId layer"

definition importedLayerId :: "layerVersion \<Rightarrow> string" where
  "importedLayerId layer = ''I'' @ layerId layer @ ''-'' @ layerAddr layer"

definition handleImportedLayer ::
  "Scope \<Rightarrow> layerVersion \<Rightarrow> ConstructTree \<Rightarrow> resolvedLayer \<times> ConstructTree" where
  "handleImportedLayer scope layer t =
     (let currentStack = scopeStack scope in
      if layerStack layer = currentStack \<or> \<not> isUnresolved (layerVersionArn layer)
      then (Original layer, t)
      else
        let t1 = addDependency currentStack (layerStack layer) t;
            t2 = (case tryFindChild t1 (stackPath (layerStack layer)) (parameterId layer) of
                    None \<Rightarrow>
                      addChild (stackPath (layerStack layer)) (parameterId layer)
                        (StringParameter (parameterName layer) (layerVersionArn layer)) t1
                  | Some existingSsmParam \<Rightarrow> t1)
        in case tryFindChild t2 (scopePath scope) (importedLayerId layer) of
             Some existingLayer \<Rightarrow> (Child (scopePath scope) (importedLayerId layer), t2)
           | None \<Rightarrow>
               (Child (scopePath scope) (importedLayerId layer),
                addChild (scopePath scope) (importedLayerId layer)
                  (LayerImport (ArnFromParameter (parameterName layer))) t2))"

text \<open>
  \<^verbatim>\<open>(props.layers || []).map(...)\<close>. \<^verbatim>\<open>fromLayerVersionArn(scope, id + layer, layer)\<close>
  adds a child to the scope, which fails when the scope has a child of that id.
\<close>

fun buildLayers ::
  "Scope \<Rightarrow> string \<Rightarrow> layerProp list \<Rightarrow> ConstructTree
     \<Rightarrow> error + (resolvedLayer list \<times> ConstructTree)" where
  "buildLayers scope fid [] t = Inr ([], t)"
| "buildLayers scope fid (LayerArn layer # rest) t =
     (case tryFindChild t (scopePath scope) (fid @ layer) of
        Some _ \<Rightarrow> Inl ConstructAlreadyExists
      | None \<Rightarrow>
          (case buildLayers scope fid rest
                  (addChild (scopePath scope) (fid @ layer) (LayerImport (ArnLiteral layer)) t) of
             Inl e \<Rightarrow> Inl e
           | Inr (ls, t') \<Rightarrow> Inr (Child (scopePath scope) (fid @ layer) # ls, t')))"
| "buildLayers scope fid (LayerConstruct layer # rest) t =
     (case handleImportedLayer scope layer t of
        (l, t1) \<Rightarrow>
          (case buildLayers scope fid rest t1 of
             Inl e \<Rightarrow> Inl e
           | Inr (ls, t') \<Rightarrow> Inr (l # ls, t')))"

section \<open>The constructor\<close>

datatype code = BridgeAsset | InlinePlaceholder

text \<open>
  The function resource: the props that the constructor hands to \<^verbatim>\<open>lambda.Function\<close>,
  the environment and the permissions as the calls of \<^verbatim>\<open>addEnvironment\<close> and
  \<^verbatim>\<open>attachPermissions\<close> leave them, and the fields that the constructor sets itself.
  The base class is outside this file: what it does with the props is not modelled, nor
  are the function name, the function URL and the registration of the handler with the
  application, which no other field depends on.
\<close>

record FunctionResource =
  resId :: string
  resProps :: FunctionProps
  resArchitecture :: "architecture option"
  resCode :: code
  resHandler :: string
  resRuntime :: string
  resMemorySize :: cdkSize
  resEphemeralStorageSize :: cdkSize
  resTimeout :: cdkDuration
  resTracing :: string
  resEnvironment :: "(string, string) fmap"
  resLayers :: "resolvedLayer list"
  resLogRetention :: "string option"
  resRetryAttempts :: "int slot"
  resAttached :: "permissions list"
  resDeferredBuild :: bool
  resIsLiveDevEnabled :: bool
  resLocalId :: string

text \<open>\<^verbatim>\<open>lambda.Function.addEnvironment\<close> assigns the key, whether it is set or not.\<close>

definition addEnvironment :: "string \<Rightarrow> string \<Rightarrow> FunctionResource \<Rightarrow> FunctionResource" where
  "addEnvironment key v r = r\<lparr>resEnvironment := fmupd key v (resEnvironment r)\<rparr>"

text \<open>
  \<^verbatim>\<open>bind\<close>: for each construct, its environment, then one policy statement for each
  of its permissions. Such a statement is no \<^verbatim>\<open>Job\<close>, so attaching it only grants it.
\<close>

definition grant :: "permissions \<Rightarrow> FunctionResource \<Rightarrow> FunctionResource" where
  "grant ps r = r\<lparr>resAttached := resAttached r @ [ps]\<rparr>"

definition bindConstruct :: "sstConstruct \<Rightarrow> FunctionResource \<Rightarrow> FunctionResource" where
  "bindConstruct c r =
     fold (\<lambda>(action, resources). grant (Entries [PermStatement [action] resources])) (bindPerms c)
       (fold (\<lambda>(key, v). addEnvironment key v) (bindEnv c) r)"

definition bindConstructs :: "sstConstruct list \<Rightarrow> FunctionResource \<Rightarrow> FunctionResource" where
  "bindConstructs constructs r = fold bindConstruct constructs r"

fun jobsOf :: "permission list \<Rightarrow> sstConstruct list" where
  "jobsOf [] = []"
| "jobsOf (PermConstruct c # ps) = (if isJob c then c # jobsOf ps else jobsOf ps)"
| "jobsOf (_ # ps) = jobsOf ps"

fun attachPermissions :: "permissions \<Rightarrow> FunctionResource \<Rightarrow> FunctionResource" where
  "attachPermissions Wildcard r = grant Wildcard r"
| "attachPermissions (Entries ps) r = bindConstructs (jobsOf ps) (grant (Entries ps) r)"

text \<open>
  \<^verbatim>\<open>path.posix.join(scope.node.path, id)\<close> with \<^verbatim>\<open>$\<close>, \<^verbatim>\<open>/\<close> and \<^verbatim>\<open>.\<close> replaced
  by \<^verbatim>\<open>-\<close>.
\<close>

definition localIdOf :: "string \<Rightarrow> string" where
  "localIdOf joined =
     map (\<lambda>c. if c = CHR ''$'' \<or> c = CHR ''/'' \<or> c = CHR ''.'' then CHR ''-'' else c) joined"

text \<open>The statements of the constructor after the call of the base class.\<close>

definition afterSuper ::
  "string \<Rightarrow> App \<Rightarrow> bool \<Rightarrow> FunctionProps \<Rightarrow> FunctionResource \<Rightarrow> FunctionResource" where
  "afterSuper ssmPrefix app isNodeRuntime props r =
     (let r = (if isNodeRuntime then addEnvironment ''AWS_NODEJS_CONNECTION_REUSE_ENABLED'' ''1'' r
               else r);
          r = attachPermissions (orElse (permissions props) (Entries [])) r;
          r = addEnvironment ''SST_APP'' (appName app) r;
          r = addEnvironment ''SST_STAGE'' (stage app) r;
          r = (if ssmPrefix \<noteq> [] then addEnvironment ''SST_SSM_PREFIX'' ssmPrefix r else r);
          r = bindConstructs (orElse (config props) []) r
      in bindConstructs (orElse (bind props) []) r)"

text \<open>
  The resource of the removal and build modes, before its layers are built: a
  placeholder as code, and the normalized props. The normalizers of sizes and durations
  cannot fail here, so the record computes them in place.
\<close>

definition placeholderResource :: "string \<Rightarrow> FunctionProps \<Rightarrow> string \<Rightarrow> FunctionResource" where
  "placeholderResource fid props localId =
     \<lparr> resId = fid, resProps = props,
       resArchitecture = (case architecture props of Defined a \<Rightarrow> Some a | _ \<Rightarrow> None),
       resCode = InlinePlaceholder, resHandler = ''index.placeholder'',
       resRuntime = ''nodejs16.x'',
       resMemorySize = normalizeMemorySize (memorySize props),
       resEphemeralStorageSize = normalizeDiskSize (diskSize props),
       resTimeout = normalizeTimeout (timeout props),
       resTracing = toUpperCase (orString (tracing props) ''active''),
       resEnvironment = orElse (environment props) fmempty,
       resLayers = [],
       resLogRetention = (if orString (logRetention props) [] = [] then None
                          else Some (toUpperCase (orString (logRetention props) []))),
       resRetryAttempts = retryAttempts props, resAttached = [],
       resDeferredBuild = False,
       resIsLiveDevEnabled = (enableLiveDev props \<noteq> Defined False),
       resLocalId = localId \<rparr>"

text \<open>
  The resource of the live development mode: the bridge as code, the three variables
  that tell the local process what to run, no layers, no retries, and the timeout of 900
  seconds when the application asks for it.
\<close>

definition bridgeResource ::
  "App \<Rightarrow> string \<Rightarrow> FunctionProps \<Rightarrow> string \<Rightarrow> string \<Rightarrow> string \<Rightarrow> FunctionResource" where
  "bridgeResource app fid props srcPath' handler' localId =
     (placeholderResource fid props localId)
       \<lparr> resCode := BridgeAsset, resHandler := ''bridge.handler'',
         resEnvironment :=
           fmupd ''SST_FUNCTION_ID'' localId
             (fmupd ''SST_DEBUG_SRC_HANDLER'' handler'
               (fmupd ''SST_DEBUG_SRC_PATH'' srcPath' (orElse (environment props) fmempty))),
         resLayers := [], resRetryAttempts := Defined 0,
         resTimeout := (if debugIncreaseTimeout app then Seconds 900
                        else normalizeTimeout (timeout props)) \<rparr>"

text \<open>
  The constructor. \<open>join\<close> is \<^verbatim>\<open>path.posix.join\<close> and \<open>ssmPrefix\<close> is
  \<^verbatim>\<open>FunctionBinding.ssmPrefix\<close>. The checks come in the order of the source: the
  runtime is normalized before the handler is looked at.
\<close>

definition construct ::
  "(string \<Rightarrow> string \<Rightarrow> string) \<Rightarrow> string \<Rightarrow> Scope \<Rightarrow> string \<Rightarrow> FunctionProps \<Rightarrow> ConstructTree
     \<Rightarrow> error + (FunctionResource \<times> ConstructTree)" where
  "construct join ssmPrefix scope fid props t =
    (let app = scopeApp scope;
         props = applyDefaults (defaultFunctionProps scope) props;
         handler' = orString (handler props) [];
         srcPath' = normalizeSrcPath (orString (srcPath props) ''.'')
     in case normalizeRuntime (runtime props) of
       Inl e \<Rightarrow> Inl e
     | Inr runtime' \<Rightarrow>
      (let isLiveDevEnabled = (enableLiveDev props \<noteq> Defined False);
           isNodeRuntime = startsWith runtime' ''nodejs'';
           isPythonRuntime = startsWith runtime' ''python''
       in if handler' = [] then Inl MissingHandler
          else if isNodeRuntime \<and> bundle' props = Defined (BundleFlag False) \<and> srcPath' = ''.''
          then Inl InvalidBundleConfig
          else if \<not> isNodeRuntime \<and> isPythonRuntime \<and> srcPath' = ''.''
          then Inl InvalidBundleConfig
          else
           (let localId = localIdOf (join (scopePath scope) fid)
            in if isLiveDevEnabled \<and> mode app = ''start'' then
                 Inr (afterSuper ssmPrefix app isNodeRuntime props
                        (grant (Entries [PermStatement [''iot:*''] [''*'']])
                          (bridgeResource app fid props srcPath' handler' localId)), t)
               else
                 (case buildLayers scope fid (orElse (layers props) []) t of
                    Inl e \<Rightarrow> Inl e
                  | Inr (ls, t') \<Rightarrow>
                      Inr (afterSuper ssmPrefix app isNodeRuntime props
                             ((placeholderResource fid props localId)
                                \<lparr> resLayers := ls, resDeferredBuild := \<not> skipBuild app \<rparr>),
                           t')))))"

text \<open>
  The keys that the bound constructs of the props contribute to the environment: the
  jobs among the permissions, the config and the bind list.
\<close>

definition boundKeys :: "FunctionProps \<Rightarrow> string set" where
  "boundKeys props =
     fst ` set (concat (map bindEnv
       (jobsOf (permissionEntries (permissions props))
        @ orElse (config props) [] @ orElse (bind props) [])))"

text \<open>The environment that the statements after the call of the base class leave.\<close>

definition environmentAfterSuper ::
  "string \<Rightarrow> App \<Rightarrow> bool \<Rightarrow> FunctionProps \<Rightarrow> (string, string) fmap \<Rightarrow> (string, string) fmap" where
  "environmentAfterSuper ssmPrefix app isNodeRuntime props env =
     fold (\<lambda>(key, v). fmupd key v)
       (concat (map bindEnv (orElse (config props) [] @ orElse (bind props) [])))
       ((if ssmPrefix \<noteq> [] then fmupd ''SST_SSM_PREFIX'' ssmPrefix else (\<lambda>e. e))
         (fmupd ''SST_STAGE'' (stage app)
           (fmupd ''SST_APP'' (appName app)
             (fold (\<lambda>(key, v). fmupd key v)
               (concat (map bindEnv (jobsOf (permissionEntries (permissions props)))))
               ((if isNodeRuntime then fmupd ''AWS_NODEJS_CONNECTION_REUSE_ENABLED'' ''1''
                 else (\<lambda>e. e)) env)))))"

section \<open>Inputs for the examples\<close>

definition exampleApp :: App where
  "exampleApp = \<lparr> mode = ''start'', debugIncreaseTimeout = True, skipBuild = False,
     appName = ''my-app'', stage = ''dev'' \<rparr>"

definition exampleScope :: "App \<Rightarrow> Scope" where
  "exampleScope app = \<lparr> scopeApp = app, scopePath = ''stack'',
     scopeStack = \<lparr> stackId = ''stack'', stackPath = ''stack'' \<rparr>,
     defaultFunctionProps = [] \<rparr>"

definition emptyTree :: ConstructTree where
  "emptyTree = \<lparr> children = fmempty, dependencies = {||} \<rparr>"

text \<open>What \<^verbatim>\<open>path.join\<close> gives for two plain segments.\<close>

definition joinSegments :: "string \<Rightarrow> string \<Rightarrow> string" where
  "joinSegments a b = a @ ''/'' @ b"

definition pythonProps :: FunctionProps where
  "pythonProps = emptyProps\<lparr> handler := Defined ''src/api.handler'', runtime := Defined ''python3.9'',
     srcPath := Defined ''src/'', retryAttempts := Defined 2 \<rparr>"

definition collidingProps :: FunctionProps where
  "collidingProps = emptyProps\<lparr> handler := Defined ''src/api.handler'',
     environment := Defined (fmap_of_list [(''SST_APP'', ''mine''), (''SST_FUNCTION_ID'', ''mine'')]) \<rparr>"

text \<open>
  Two constructions in an application in start mode: a Python function, and a function
  whose environment sets two of the reserved keys.
\<close>

definition liveExample :: "error + (FunctionResource \<times> ConstructTree)" where
  "liveExample = construct joinSegments [] (exampleScope exampleApp) ''Api'' pythonProps emptyTree"

definition collidingExample :: "error + (FunctionResource \<times> ConstructTree)" where
  "collidingExample =
     construct joinSegments ''/sst/app/dev'' (exampleScope exampleApp) ''Api'' collidingProps emptyTree"




section \<open>Properties of \<^verbatim>\<open>mergeProps\<close> and of the defaults chain\<close>

lemma mergeProps_fields:
  "mergeProps (Some b) (Some p) =
     \<lparr> architecture = spread (architecture b) (architecture p),
       functionName = spread (functionName b) (functionName p),
       handler = spread (handler b) (handler p),
       srcPath = spread (srcPath b) (srcPath p),
       runtime = spread (runtime b) (runtime p),
       diskSize = spread (diskSize b) (diskSize p),
       memorySize = spread (memorySize b) (memorySize p),
       timeout = spread (timeout b) (timeout p),
       tracing = spread (tracing b) (tracing p),
       enableLiveDev = spread (enableLiveDev b) (enableLiveDev p),
       environment = mergedEnvironment (environment b) (environment p),
       bundle' = spread (bundle' b) (bundle' p),
       bind = mergedList (bind b) (bind p),
       config = mergedList (config b) (config p),
       permissions = mergedPermissions (permissions b) (permissions p),
       url = spread (url b) (url p),
       layers = mergedList (layers b) (layers p),
       logRetention = spread (logRetention b) (logRetention p),
       retryAttempts = spread (retryAttempts b) (retryAttempts p) \<rparr>"
  by (simp add: mergeProps_def Let_def mergedEnvironment_def mergedList_def mergedPermissions_def)



lemma fmdom_empty_iff: "fmdom m = {||} \<longleftrightarrow> m = fmempty"
proof
  assume "fmdom m = {||}"
  then have "fmlookup m k = None" for k
    by (metis fmdom_notD fempty_iff)
  then show "m = fmempty"
    by (intro fmap_ext) simp
qed simp

lemma fmadd_empty_iff: "m ++\<^sub>f n = fmempty \<longleftrightarrow> m = fmempty \<and> n = fmempty"
proof -
  have "fmdom (m ++\<^sub>f n) = {||} \<longleftrightarrow> fmdom m = {||} \<and> fmdom n = {||}"
    by auto
  then show ?thesis
    by (simp only: fmdom_empty_iff)
qed












text \<open>
  C2. For every pair of props, the merged permissions are the wildcard whenever either
  side's permissions are the wildcard; when neither is, the merged permissions are not
  the wildcard and their entries are the entries of the base followed by those of the
  override, in order, none dropped and none deduplicated.
\<close>

theorem mergeProps_permissions:
  "(permissions b = Defined Wildcard \<or> permissions p = Defined Wildcard
      \<longrightarrow> permissions (mergeProps (Some b) (Some p)) = Defined Wildcard)
   \<and> (permissions b \<noteq> Defined Wildcard \<and> permissions p \<noteq> Defined Wildcard
      \<longrightarrow> permissions (mergeProps (Some b) (Some p)) \<noteq> Defined Wildcard
        \<and> permissionEntries (permissions (mergeProps (Some b) (Some p)))
           = permissionEntries (permissions b) @ permissionEntries (permissions p))"
proof -
  have "mergedPermissions x y = Defined Wildcard" if "x = Defined Wildcard \<or> y = Defined Wildcard"
    for x y
    using that by (auto simp: mergedPermissions_def)
  moreover have "mergedPermissions x y \<noteq> Defined Wildcard
      \<and> permissionEntries (mergedPermissions x y) = permissionEntries x @ permissionEntries y"
    if "x \<noteq> Defined Wildcard" and "y \<noteq> Defined Wildcard" for x y
    using that
    by (cases x rule: permissionEntries.cases; cases y rule: permissionEntries.cases)
      (auto simp: mergedPermissions_def)
  ultimately show ?thesis
    by (simp add: mergeProps_fields)
qed

theorem mergeProps_permissions_witness:
  "permissions (mergeProps (Some (emptyProps\<lparr>permissions := Defined (Entries [PermAction ''s3'']) \<rparr>))
       (Some (emptyProps\<lparr>permissions := Defined Wildcard\<rparr>))) = Defined Wildcard
   \<and> permissionEntries (permissions
       (mergeProps (Some (emptyProps\<lparr>permissions := Defined (Entries [PermAction ''s3'', PermAction ''sns''])\<rparr>))
         (Some (emptyProps\<lparr>permissions := Defined (Entries [PermAction ''s3''])\<rparr>))))
      = [PermAction ''s3'', PermAction ''sns'', PermAction ''s3'']"
  using mergeProps_permissions [of "emptyProps\<lparr>permissions := Defined (Entries [PermAction ''s3'']) \<rparr>"
      "emptyProps\<lparr>permissions := Defined Wildcard\<rparr>"]
    mergeProps_permissions [of "emptyProps\<lparr>permissions := Defined (Entries [PermAction ''s3'', PermAction ''sns''])\<rparr>"
      "emptyProps\<lparr>permissions := Defined (Entries [PermAction ''s3''])\<rparr>"]
  by simp

text \<open>
  C6. For every pair of props, the merged environment is the union of both
  environments, the override's value winning on every shared key, and the merged layers,
  config and bind lists are the base's entries followed by the override's. The defaults
  \<^verbatim>\<open>{timeout: 5, environment: {A: "1"}}\<close> then \<^verbatim>\<open>{timeout: 30}\<close> with the explicit
  props \<^verbatim>\<open>{environment: {B: "2"}}\<close> give the timeout 30 and the environment
  \<^verbatim>\<open>{A: "1", B: "2"}\<close>.
\<close>

theorem mergeProps_environment_and_lists:
  "orElse (environment (mergeProps (Some b) (Some p))) fmempty
     = orElse (environment b) fmempty ++\<^sub>f orElse (environment p) fmempty
   \<and> fmlookup (orElse (environment (mergeProps (Some b) (Some p))) fmempty) k
     = (case fmlookup (orElse (environment p) fmempty) k of
          Some v \<Rightarrow> Some v
        | None \<Rightarrow> fmlookup (orElse (environment b) fmempty) k)
   \<and> orElse (layers (mergeProps (Some b) (Some p))) [] = orElse (layers b) [] @ orElse (layers p) []
   \<and> orElse (config (mergeProps (Some b) (Some p))) [] = orElse (config b) [] @ orElse (config p) []
   \<and> orElse (bind (mergeProps (Some b) (Some p))) [] = orElse (bind b) [] @ orElse (bind p) []
   \<and> timeout (applyDefaults
        [emptyProps\<lparr>timeout := Defined (Num 5), environment := Defined (fmap_of_list [(''A'', ''1'')])\<rparr>,
         emptyProps\<lparr>timeout := Defined (Num 30)\<rparr>]
        (emptyProps\<lparr>environment := Defined (fmap_of_list [(''B'', ''2'')])\<rparr>)) = Defined (Num 30)
   \<and> environment (applyDefaults
        [emptyProps\<lparr>timeout := Defined (Num 5), environment := Defined (fmap_of_list [(''A'', ''1'')])\<rparr>,
         emptyProps\<lparr>timeout := Defined (Num 30)\<rparr>]
        (emptyProps\<lparr>environment := Defined (fmap_of_list [(''B'', ''2'')])\<rparr>))
      = Defined (fmap_of_list [(''A'', ''1''), (''B'', ''2'')])"
proof -
  have env: "orElse (mergedEnvironment x y) fmempty = orElse x fmempty ++\<^sub>f orElse y fmempty" for x y
    by (cases x; cases y) (auto simp: mergedEnvironment_def fmdom_empty_iff fmadd_empty_iff)
  have lst: "orElse (mergedList x y) [] = orElse x [] @ orElse y []" for x y :: "'a list slot"
    by (cases x; cases y) (auto simp: mergedList_def)
  have ex1: "timeout (applyDefaults
        [emptyProps\<lparr>timeout := Defined (Num 5), environment := Defined (fmap_of_list [(''A'', ''1'')])\<rparr>,
         emptyProps\<lparr>timeout := Defined (Num 30)\<rparr>]
        (emptyProps\<lparr>environment := Defined (fmap_of_list [(''B'', ''2'')])\<rparr>)) = Defined (Num 30)"
    by (simp add: applyDefaults_def mergeProps_fields emptyProps_def)
  have ex2: "environment (applyDefaults
        [emptyProps\<lparr>timeout := Defined (Num 5), environment := Defined (fmap_of_list [(''A'', ''1'')])\<rparr>,
         emptyProps\<lparr>timeout := Defined (Num 30)\<rparr>]
        (emptyProps\<lparr>environment := Defined (fmap_of_list [(''B'', ''2'')])\<rparr>))
      = Defined (fmap_of_list [(''A'', ''1''), (''B'', ''2'')])"
    by (simp add: applyDefaults_def mergeProps_fields emptyProps_def mergedEnvironment_def
        fmdom_empty_iff fmadd_empty_iff fmupd_reorder_neq)
  show ?thesis
    by (simp only: ex1 ex2 mergeProps_fields env lst FunctionProps.simps fmlookup_add
        simp_thms) (auto split: option.splits simp: fmlookup_dom_iff)
qed

section \<open>Zero is the default\<close>

text \<open>
  C10. Each size and duration normalizer maps the number 0 to its default: a timeout of
  0 becomes 10 seconds, a memory size of 0 becomes 1024 MB and a disk size of 0 becomes
  512 MB, the same results as for an absent or undefined value.
\<close>

theorem normalize_zero_is_default:
  "normalizeTimeout (Defined (Num 0)) = Seconds 10
   \<and> normalizeMemorySize (Defined (Num 0)) = Mebibytes 1024
   \<and> normalizeDiskSize (Defined (Num 0)) = Mebibytes 512
   \<and> normalizeTimeout (Defined (Num 0)) = normalizeTimeout Absent
   \<and> normalizeMemorySize (Defined (Num 0)) = normalizeMemorySize Undefined
   \<and> normalizeDiskSize (Defined (Num 0)) = normalizeDiskSize Absent"
  by simp

section \<open>The runtime normalizer\<close>

text \<open>
  C7, as amended. An absent, undefined or empty runtime gives the default
  \<^verbatim>\<open>nodejs14.x\<close>. Every other identifier that is not a supported runtime, and not the
  name of a property inherited from \<^verbatim>\<open>Object.prototype\<close>, fails with
  \<open>UnsupportedRuntime\<close>, and every supported runtime is returned unchanged.
\<close>

theorem normalizeRuntime_cases:
  "normalizeRuntime Absent = Inr ''nodejs14.x''
   \<and> normalizeRuntime Undefined = Inr ''nodejs14.x''
   \<and> normalizeRuntime (Defined []) = Inr ''nodejs14.x''
   \<and> (r \<noteq> [] \<and> r \<notin> set supportedRuntimes \<and> r \<notin> set objectPrototypeKeys
        \<longrightarrow> normalizeRuntime (Defined r) = Inl UnsupportedRuntime)
   \<and> (r \<in> set supportedRuntimes \<longrightarrow> normalizeRuntime (Defined r) = Inr r)"
proof -
  have dflt: "supportedRuntimesLookup ''nodejs14.x''"
    by (simp add: supportedRuntimesLookup_def supportedRuntimes_def)
  have nonempty: "r \<noteq> []" if "r \<in> set supportedRuntimes"
    using that by (auto simp: supportedRuntimes_def)
  show ?thesis
    using dflt nonempty by (auto simp: normalizeRuntime_def Let_def supportedRuntimesLookup_def)
qed

theorem normalizeRuntime_cases_witness:
  "normalizeRuntime (Defined ''ruby2.7'') = Inl UnsupportedRuntime
   \<and> normalizeRuntime (Defined ''python3.9'') = Inr ''python3.9''"
  using normalizeRuntime_cases [of "''ruby2.7''"] normalizeRuntime_cases [of "''python3.9''"]
  by (simp add: supportedRuntimes_def objectPrototypeKeys_def)

text \<open>
  The name of an inherited property passes the lookup, although it is no runtime.
\<close>

lemma normalizeRuntime_inherited_property:
  "normalizeRuntime (Defined ''toString'') = Inr ''toString''"
  by (simp add: normalizeRuntime_def supportedRuntimesLookup_def objectPrototypeKeys_def)

text \<open>
  The empty string is outside the supported set, and it does not fail: it is falsy, so
  the default replaces it.
\<close>

theorem normalizeRuntime_empty_counterexample:
  "[] \<notin> set supportedRuntimes \<and> normalizeRuntime (Defined []) = Inr ''nodejs14.x''"
  by (simp add: supportedRuntimes_def normalizeRuntime_def supportedRuntimesLookup_def)


section \<open>The constructor: what the statements after the base class keep\<close>

lemma fold_addEnvironment:
  "fold (\<lambda>(key, v). addEnvironment key v) kvs r
   = r\<lparr>resEnvironment := fold (\<lambda>(key, v). fmupd key v) kvs (resEnvironment r)\<rparr>"
  by (induction kvs arbitrary: r) (auto simp: addEnvironment_def)

lemma fold_grant:
  "fold (\<lambda>(action, resources). grant (f action resources)) ps r
   = r\<lparr>resAttached := resAttached r @ map (\<lambda>(action, resources). f action resources) ps\<rparr>"
  by (induction ps arbitrary: r) (auto simp: grant_def)

lemma bindConstruct_frame:
  "bindConstruct c r
   = r\<lparr>resEnvironment := fold (\<lambda>(key, v). fmupd key v) (bindEnv c) (resEnvironment r),
       resAttached := resAttached r
         @ map (\<lambda>(action, resources). Entries [PermStatement [action] resources]) (bindPerms c)\<rparr>"
  by (simp add: bindConstruct_def fold_addEnvironment fold_grant)

lemma bindConstructs_frame:
  "\<exists>A. bindConstructs cs r
   = r\<lparr>resEnvironment := fold (\<lambda>(key, v). fmupd key v) (concat (map bindEnv cs)) (resEnvironment r),
       resAttached := A\<rparr>"
unfolding bindConstructs_def
proof (induction cs arbitrary: r)
  case Nil
  show ?case by (intro exI [of _ "resAttached r"]) simp
next
  case (Cons c cs)
  from Cons.IH [of "bindConstruct c r"] show ?case
    by (auto simp: bindConstruct_frame)
qed

lemma attachPermissions_frame:
  "\<exists>A. attachPermissions ps r
   = r\<lparr>resEnvironment :=
         fold (\<lambda>(key, v). fmupd key v)
           (concat (map bindEnv (jobsOf (permissionEntries (Defined ps))))) (resEnvironment r),
       resAttached := A\<rparr>"
proof (cases ps)
  case Wildcard
  then show ?thesis by (auto simp: grant_def intro!: exI [of _ "resAttached r @ [Wildcard]"])
next
  case (Entries es)
  then show ?thesis
    using bindConstructs_frame [of "jobsOf es" "grant (Entries es) r"]
    by (auto simp: grant_def)
qed

lemma permissionEntries_orElse:
  "permissionEntries (Defined (orElse ps (Entries []))) = permissionEntries ps"
  by (cases ps rule: permissionEntries.cases) simp_all

lemma bindConstructs_environment:
  "resEnvironment (bindConstructs cs r)
   = fold (\<lambda>(key, v). fmupd key v) (concat (map bindEnv cs)) (resEnvironment r)"
  using bindConstructs_frame [of cs r] by auto

lemma bindConstructs_fields:
  "resRuntime (bindConstructs cs r) = resRuntime r
   \<and> resRetryAttempts (bindConstructs cs r) = resRetryAttempts r
   \<and> resTimeout (bindConstructs cs r) = resTimeout r
   \<and> resCode (bindConstructs cs r) = resCode r
   \<and> resLayers (bindConstructs cs r) = resLayers r"
  using bindConstructs_frame [of cs r] by auto

lemma attachPermissions_environment:
  "resEnvironment (attachPermissions ps r)
   = fold (\<lambda>(key, v). fmupd key v)
       (concat (map bindEnv (jobsOf (permissionEntries (Defined ps))))) (resEnvironment r)"
  using attachPermissions_frame [of ps r] by auto

lemma attachPermissions_fields:
  "resRuntime (attachPermissions ps r) = resRuntime r
   \<and> resRetryAttempts (attachPermissions ps r) = resRetryAttempts r
   \<and> resTimeout (attachPermissions ps r) = resTimeout r
   \<and> resCode (attachPermissions ps r) = resCode r
   \<and> resLayers (attachPermissions ps r) = resLayers r"
  using attachPermissions_frame [of ps r] by auto

lemma afterSuper_environment:
  "resEnvironment (afterSuper ssmPrefix app isNodeRuntime props r)
   = environmentAfterSuper ssmPrefix app isNodeRuntime props (resEnvironment r)"
  by (simp add: afterSuper_def Let_def environmentAfterSuper_def bindConstructs_environment
      attachPermissions_environment permissionEntries_orElse addEnvironment_def)

lemma afterSuper_fields:
  "resRuntime (afterSuper ssmPrefix app isNodeRuntime props r) = resRuntime r
   \<and> resRetryAttempts (afterSuper ssmPrefix app isNodeRuntime props r) = resRetryAttempts r
   \<and> resTimeout (afterSuper ssmPrefix app isNodeRuntime props r) = resTimeout r
   \<and> resCode (afterSuper ssmPrefix app isNodeRuntime props r) = resCode r
   \<and> resLayers (afterSuper ssmPrefix app isNodeRuntime props r) = resLayers r"
  by (simp add: afterSuper_def Let_def bindConstructs_fields attachPermissions_fields
      addEnvironment_def)

lemma fold_fmupd_lookup_other:
  "k \<notin> fst ` set kvs \<Longrightarrow> fmlookup (fold (\<lambda>(key, v). fmupd key v) kvs env) k = fmlookup env k"
  by (induction kvs arbitrary: env) auto

lemma fold_fmupd_dom:
  "k |\<in>| fmdom env \<Longrightarrow> k |\<in>| fmdom (fold (\<lambda>(key, v). fmupd key v) kvs env)"
  by (induction kvs arbitrary: env) auto

lemma environmentAfterSuper_dom:
  "k |\<in>| fmdom env \<Longrightarrow> k |\<in>| fmdom (environmentAfterSuper ssmPrefix app isNodeRuntime props env)"
  by (simp add: environmentAfterSuper_def fold_fmupd_dom)

lemma environmentAfterSuper_lookup:
  assumes "k \<notin> boundKeys props"
    and "k \<notin> {''AWS_NODEJS_CONNECTION_REUSE_ENABLED'', ''SST_APP'', ''SST_STAGE'', ''SST_SSM_PREFIX''}"
  shows "fmlookup (environmentAfterSuper ssmPrefix app isNodeRuntime props env) k = fmlookup env k"
proof -
  have 1: "k \<notin> fst ` set (concat (map bindEnv (jobsOf (permissionEntries (permissions props)))))"
    and 2: "k \<notin> fst ` set (concat (map bindEnv (orElse (config props) [] @ orElse (bind props) [])))"
    using assms(1) by (auto simp: boundKeys_def)
  from assms(2) show ?thesis
    unfolding environmentAfterSuper_def fold_fmupd_lookup_other [OF 2]
    by (auto simp: fold_fmupd_lookup_other [OF 1])
qed

lemma environmentAfterSuper_reserved:
  assumes "k \<notin> boundKeys props"
  shows "k = ''SST_APP'' \<Longrightarrow> fmlookup (environmentAfterSuper ssmPrefix app isNodeRuntime props env) k = Some (appName app)"
    and "k = ''SST_STAGE'' \<Longrightarrow> fmlookup (environmentAfterSuper ssmPrefix app isNodeRuntime props env) k = Some (stage app)"
    and "k = ''SST_SSM_PREFIX'' \<Longrightarrow> ssmPrefix \<noteq> [] \<Longrightarrow> fmlookup (environmentAfterSuper ssmPrefix app isNodeRuntime props env) k = Some ssmPrefix"
proof -
  have 2: "k \<notin> fst ` set (concat (map bindEnv (orElse (config props) [] @ orElse (bind props) [])))"
    using assms(1) by (auto simp: boundKeys_def)
  show "k = ''SST_APP'' \<Longrightarrow> fmlookup (environmentAfterSuper ssmPrefix app isNodeRuntime props env) k = Some (appName app)"
    and "k = ''SST_STAGE'' \<Longrightarrow> fmlookup (environmentAfterSuper ssmPrefix app isNodeRuntime props env) k = Some (stage app)"
    and "k = ''SST_SSM_PREFIX'' \<Longrightarrow> ssmPrefix \<noteq> [] \<Longrightarrow> fmlookup (environmentAfterSuper ssmPrefix app isNodeRuntime props env) k = Some ssmPrefix"
    unfolding environmentAfterSuper_def fold_fmupd_lookup_other [OF 2]
    by auto
qed



lemma construct_Inr:
  assumes "construct join ssmPrefix scope fid props t = Inr (r, t')"
    and "m = applyDefaults (defaultFunctionProps scope) props"
  shows "\<exists>rt. normalizeRuntime (runtime m) = Inr rt
      \<and> orString (handler m) [] \<noteq> []
      \<and> (if enableLiveDev m \<noteq> Defined False \<and> mode (scopeApp scope) = ''start''
         then t' = t
           \<and> r = afterSuper ssmPrefix (scopeApp scope) (startsWith rt ''nodejs'') m
                   (grant (Entries [PermStatement [''iot:*''] [''*'']])
                     (bridgeResource (scopeApp scope) fid m
                        (normalizeSrcPath (orString (srcPath m) ''.''))
                        (orString (handler m) []) (localIdOf (join (scopePath scope) fid))))
         else \<exists>ls. buildLayers scope fid (orElse (layers m) []) t = Inr (ls, t')
           \<and> r = afterSuper ssmPrefix (scopeApp scope) (startsWith rt ''nodejs'') m
                   ((placeholderResource fid m (localIdOf (join (scopePath scope) fid)))
                      \<lparr> resLayers := ls, resDeferredBuild := \<not> skipBuild (scopeApp scope) \<rparr>))"
  using assms(1) unfolding construct_def Let_def assms(2) [symmetric]
  by (auto split: sum.splits if_splits)

lemmas example_defs = exampleScope_def exampleApp_def emptyTree_def joinSegments_def emptyProps_def

lemmas construct_eval = construct_def Let_def applyDefaults_def normalizeRuntime_def
  supportedRuntimesLookup_def supportedRuntimes_def objectPrototypeKeys_def startsWith_def
  normalizeSrcPath_def localIdOf_def


section \<open>The constructor: order of the checks\<close>






section \<open>The constructor: live development mode\<close>

lemma live_environment_lookup:
  "fmlookup (fmupd ''SST_FUNCTION_ID'' a (fmupd ''SST_DEBUG_SRC_HANDLER'' b (fmupd ''SST_DEBUG_SRC_PATH'' c env))) ''SST_FUNCTION_ID'' = Some a"
  "fmlookup (fmupd ''SST_FUNCTION_ID'' a (fmupd ''SST_DEBUG_SRC_HANDLER'' b (fmupd ''SST_DEBUG_SRC_PATH'' c env))) ''SST_DEBUG_SRC_HANDLER'' = Some b"
  "fmlookup (fmupd ''SST_FUNCTION_ID'' a (fmupd ''SST_DEBUG_SRC_HANDLER'' b (fmupd ''SST_DEBUG_SRC_PATH'' c env))) ''SST_DEBUG_SRC_PATH'' = Some c"
  by simp_all

lemma construct_live_environment:
  assumes "construct join ssmPrefix scope fid props t = Inr (r, t')"
    and "m = applyDefaults (defaultFunctionProps scope) props"
    and "enableLiveDev m \<noteq> Defined False"
    and "mode (scopeApp scope) = ''start''"
  shows "\<exists>rt. resEnvironment r
         = environmentAfterSuper ssmPrefix (scopeApp scope) (startsWith rt ''nodejs'') m
             (fmupd ''SST_FUNCTION_ID'' (localIdOf (join (scopePath scope) fid))
               (fmupd ''SST_DEBUG_SRC_HANDLER'' (orString (handler m) [])
                 (fmupd ''SST_DEBUG_SRC_PATH'' (normalizeSrcPath (orString (srcPath m) ''.''))
                   (orElse (environment m) fmempty))))"
  using construct_Inr [OF assms(1,2)] assms(3,4)
  by (auto simp: afterSuper_environment grant_def bridgeResource_def)

lemma construct_live_fields:
  assumes "construct join ssmPrefix scope fid props t = Inr (r, t')"
    and "m = applyDefaults (defaultFunctionProps scope) props"
    and "enableLiveDev m \<noteq> Defined False"
    and "mode (scopeApp scope) = ''start''"
  shows "resRuntime r = ''nodejs16.x''" and "resRetryAttempts r = Defined 0"
    and "resTimeout r = (if debugIncreaseTimeout (scopeApp scope) then Seconds 900
                         else normalizeTimeout (timeout m))"
  using construct_Inr [OF assms(1,2)] assms(3,4)
  by (auto simp: afterSuper_fields grant_def bridgeResource_def placeholderResource_def)

lemma live_keys_kept:
  assumes "k \<in> {''SST_DEBUG_SRC_PATH'', ''SST_DEBUG_SRC_HANDLER'', ''SST_FUNCTION_ID''}"
    and "k \<notin> boundKeys m"
  shows "fmlookup (environmentAfterSuper ssmPrefix app n m env) k = fmlookup env k"
  using assms by (intro environmentAfterSuper_lookup) auto

text \<open>
  C3. When the constructor succeeds with live development enabled in the merged props
  and the application in start mode, the runtime of the resource is the fixed
  \<^verbatim>\<open>nodejs16.x\<close> whatever runtime was declared, its retry count is zero, and its
  environment has the three keys for the source path, the handler and the local id of
  the function, each with that value unless a bound construct contributes the same key;
  when the application sets \<^verbatim>\<open>debugIncreaseTimeout\<close>, the timeout is 900 seconds.
\<close>

theorem live_dev_resource:
  assumes "construct join ssmPrefix scope fid props t = Inr (r, t')"
    and "m = applyDefaults (defaultFunctionProps scope) props"
    and "enableLiveDev m \<noteq> Defined False"
    and "mode (scopeApp scope) = ''start''"
  shows "resRuntime r = ''nodejs16.x'' \<and> resRetryAttempts r = Defined 0
    \<and> {|''SST_DEBUG_SRC_PATH'', ''SST_DEBUG_SRC_HANDLER'', ''SST_FUNCTION_ID''|}
         |\<subseteq>| fmdom (resEnvironment r)
    \<and> (''SST_DEBUG_SRC_PATH'' \<notin> boundKeys m \<longrightarrow>
         fmlookup (resEnvironment r) ''SST_DEBUG_SRC_PATH''
           = Some (normalizeSrcPath (orString (srcPath m) ''.'')))
    \<and> (''SST_DEBUG_SRC_HANDLER'' \<notin> boundKeys m \<longrightarrow>
         fmlookup (resEnvironment r) ''SST_DEBUG_SRC_HANDLER'' = Some (orString (handler m) []))
    \<and> (''SST_FUNCTION_ID'' \<notin> boundKeys m \<longrightarrow>
         fmlookup (resEnvironment r) ''SST_FUNCTION_ID''
           = Some (localIdOf (join (scopePath scope) fid)))
    \<and> (debugIncreaseTimeout (scopeApp scope) \<longrightarrow> resTimeout r = Seconds 900)"
proof -
  obtain rt where env: "resEnvironment r
         = environmentAfterSuper ssmPrefix (scopeApp scope) (startsWith rt ''nodejs'') m
             (fmupd ''SST_FUNCTION_ID'' (localIdOf (join (scopePath scope) fid))
               (fmupd ''SST_DEBUG_SRC_HANDLER'' (orString (handler m) [])
                 (fmupd ''SST_DEBUG_SRC_PATH'' (normalizeSrcPath (orString (srcPath m) ''.''))
                   (orElse (environment m) fmempty))))"
    using construct_live_environment [OF assms] by blast
  have keys: "{|''SST_DEBUG_SRC_PATH'', ''SST_DEBUG_SRC_HANDLER'', ''SST_FUNCTION_ID''|}
         |\<subseteq>| fmdom (resEnvironment r)"
    unfolding env by (simp add: environmentAfterSuper_dom)
  show ?thesis
    using keys construct_live_fields [OF assms]
    by (simp add: env live_keys_kept live_environment_lookup)
qed

theorem live_dev_resource_witness:
  "resRuntime (fst (projr liveExample)) = ''nodejs16.x''
   \<and> resRetryAttempts (fst (projr liveExample)) = Defined 0
   \<and> fmlookup (resEnvironment (fst (projr liveExample))) ''SST_DEBUG_SRC_PATH'' = Some ''src''
   \<and> fmlookup (resEnvironment (fst (projr liveExample))) ''SST_DEBUG_SRC_HANDLER'' = Some ''src/api.handler''
   \<and> fmlookup (resEnvironment (fst (projr liveExample))) ''SST_FUNCTION_ID'' = Some ''stack-Api''
   \<and> resTimeout (fst (projr liveExample)) = Seconds 900"
proof -
  let ?c = "construct joinSegments [] (exampleScope exampleApp) ''Api'' pythonProps emptyTree"
  have c: "liveExample = ?c"
    by (simp add: liveExample_def)
  have "\<not> isl ?c"
    by (simp add: construct_eval example_defs pythonProps_def)
  then have ok: "?c = Inr (fst (projr ?c), snd (projr ?c))"
    by (cases ?c) simp_all
  have m: "pythonProps = applyDefaults (defaultFunctionProps (exampleScope exampleApp)) pythonProps"
    by (simp add: applyDefaults_def exampleScope_def)
  show ?thesis
    unfolding c using live_dev_resource [OF ok m]
    by (simp add: boundKeys_def example_defs pythonProps_def normalizeSrcPath_def localIdOf_def)
qed

section \<open>The constructor: reserved environment keys\<close>

lemma applyDefaults_environment_update:
  "\<exists>e'. applyDefaults ds (p\<lparr>environment := e\<rparr>) = (applyDefaults ds p)\<lparr>environment := e'\<rparr>"
proof -
  have "\<exists>e'. foldl (\<lambda>props per. mergeProps (Some per) (Some props)) (p\<lparr>environment := e\<rparr>) xs
      = (foldl (\<lambda>props per. mergeProps (Some per) (Some props)) p xs)\<lparr>environment := e'\<rparr>" for xs
  proof (induction xs arbitrary: p e)
    case Nil
    show ?case by auto
  next
    case (Cons x xs)
    have "mergeProps (Some x) (Some (p\<lparr>environment := e\<rparr>))
        = (mergeProps (Some x) (Some p))\<lparr>environment := mergedEnvironment (environment x) e\<rparr>"
      by (simp add: mergeProps_fields)
    then show ?case
      using Cons.IH by simp
  qed
  then show ?thesis
    by (simp add: applyDefaults_def)
qed

lemma construct_Inl_environment:
  "construct join ssmPrefix scope fid (props\<lparr>environment := e\<rparr>) t = Inl err
   \<longleftrightarrow> construct join ssmPrefix scope fid props t = Inl err"
proof -
  obtain e' where "applyDefaults (defaultFunctionProps scope) (props\<lparr>environment := e\<rparr>)
      = (applyDefaults (defaultFunctionProps scope) props)\<lparr>environment := e'\<rparr>"
    using applyDefaults_environment_update by blast
  then show ?thesis
    unfolding construct_def Let_def
    by (auto split: sum.splits)
qed

lemma construct_environment:
  assumes "construct join ssmPrefix scope fid props t = Inr (r, t')"
    and "m = applyDefaults (defaultFunctionProps scope) props"
  shows "\<exists>n env. resEnvironment r = environmentAfterSuper ssmPrefix (scopeApp scope) n m env"
proof -
  have "\<exists>n x. r = afterSuper ssmPrefix (scopeApp scope) n m x"
    using construct_Inr [OF assms] by (auto split: if_splits)
  then show ?thesis
    using afterSuper_environment by blast
qed

text \<open>
  C9, as amended. A reserved key in the environment of the user is no error: whether
  the constructor fails, and with which error, does not depend on the environment of the
  props. In the constructed resource the keys \<^verbatim>\<open>SST_APP\<close>, \<^verbatim>\<open>SST_STAGE\<close> and, when
  the prefix is not empty, \<^verbatim>\<open>SST_SSM_PREFIX\<close> carry the name of the application, its
  stage and the prefix, and in live development mode \<^verbatim>\<open>SST_DEBUG_SRC_PATH\<close>,
  \<^verbatim>\<open>SST_DEBUG_SRC_HANDLER\<close> and \<^verbatim>\<open>SST_FUNCTION_ID\<close> carry the source path, the handler
  and the local id, whatever value the user gave them; only a bound construct that
  contributes the same key can replace the value again.
\<close>

theorem reserved_keys_replace_user_values:
  assumes "m = applyDefaults (defaultFunctionProps scope) props"
  shows "(construct join ssmPrefix scope fid (props\<lparr>environment := e\<rparr>) t = Inl err
           \<longleftrightarrow> construct join ssmPrefix scope fid props t = Inl err)
    \<and> (construct join ssmPrefix scope fid props t = Inr (r, t') \<longrightarrow>
         (''SST_APP'' \<notin> boundKeys m \<longrightarrow>
            fmlookup (resEnvironment r) ''SST_APP'' = Some (appName (scopeApp scope)))
       \<and> (''SST_STAGE'' \<notin> boundKeys m \<longrightarrow>
            fmlookup (resEnvironment r) ''SST_STAGE'' = Some (stage (scopeApp scope)))
       \<and> (ssmPrefix \<noteq> [] \<and> ''SST_SSM_PREFIX'' \<notin> boundKeys m \<longrightarrow>
            fmlookup (resEnvironment r) ''SST_SSM_PREFIX'' = Some ssmPrefix)
       \<and> (enableLiveDev m \<noteq> Defined False \<and> mode (scopeApp scope) = ''start'' \<longrightarrow>
            (''SST_DEBUG_SRC_PATH'' \<notin> boundKeys m \<longrightarrow>
               fmlookup (resEnvironment r) ''SST_DEBUG_SRC_PATH''
                 = Some (normalizeSrcPath (orString (srcPath m) ''.'')))
          \<and> (''SST_DEBUG_SRC_HANDLER'' \<notin> boundKeys m \<longrightarrow>
               fmlookup (resEnvironment r) ''SST_DEBUG_SRC_HANDLER'' = Some (orString (handler m) []))
          \<and> (''SST_FUNCTION_ID'' \<notin> boundKeys m \<longrightarrow>
               fmlookup (resEnvironment r) ''SST_FUNCTION_ID''
                 = Some (localIdOf (join (scopePath scope) fid)))))"
proof (intro conjI impI)
  show "construct join ssmPrefix scope fid (props\<lparr>environment := e\<rparr>) t = Inl err
           \<longleftrightarrow> construct join ssmPrefix scope fid props t = Inl err"
    by (rule construct_Inl_environment)
next
  assume c: "construct join ssmPrefix scope fid props t = Inr (r, t')"
  then obtain n env where env: "resEnvironment r = environmentAfterSuper ssmPrefix (scopeApp scope) n m env"
    using construct_environment [OF c assms] by blast
  show "fmlookup (resEnvironment r) ''SST_APP'' = Some (appName (scopeApp scope))"
    if "''SST_APP'' \<notin> boundKeys m"
    unfolding env using that by (rule environmentAfterSuper_reserved) simp
  show "fmlookup (resEnvironment r) ''SST_STAGE'' = Some (stage (scopeApp scope))"
    if "''SST_STAGE'' \<notin> boundKeys m"
    unfolding env using that by (rule environmentAfterSuper_reserved) simp
  show "fmlookup (resEnvironment r) ''SST_SSM_PREFIX'' = Some ssmPrefix"
    if "ssmPrefix \<noteq> [] \<and> ''SST_SSM_PREFIX'' \<notin> boundKeys m"
    unfolding env using that by (intro environmentAfterSuper_reserved) simp_all
  assume live: "enableLiveDev m \<noteq> Defined False \<and> mode (scopeApp scope) = ''start''"
  then obtain rt where lenv: "resEnvironment r
         = environmentAfterSuper ssmPrefix (scopeApp scope) (startsWith rt ''nodejs'') m
             (fmupd ''SST_FUNCTION_ID'' (localIdOf (join (scopePath scope) fid))
               (fmupd ''SST_DEBUG_SRC_HANDLER'' (orString (handler m) [])
                 (fmupd ''SST_DEBUG_SRC_PATH'' (normalizeSrcPath (orString (srcPath m) ''.''))
                   (orElse (environment m) fmempty))))"
    using construct_live_environment [OF c assms] by blast
  show "fmlookup (resEnvironment r) ''SST_DEBUG_SRC_PATH''
                 = Some (normalizeSrcPath (orString (srcPath m) ''.''))"
    if "''SST_DEBUG_SRC_PATH'' \<notin> boundKeys m"
    using that by (simp add: lenv live_keys_kept live_environment_lookup)
  show "fmlookup (resEnvironment r) ''SST_DEBUG_SRC_HANDLER'' = Some (orString (handler m) [])"
    if "''SST_DEBUG_SRC_HANDLER'' \<notin> boundKeys m"
    using that by (simp add: lenv live_keys_kept live_environment_lookup)
  show "fmlookup (resEnvironment r) ''SST_FUNCTION_ID''
                 = Some (localIdOf (join (scopePath scope) fid))"
    if "''SST_FUNCTION_ID'' \<notin> boundKeys m"
    using that by (simp add: lenv live_keys_kept live_environment_lookup)
qed

text \<open>
  With \<^verbatim>\<open>SST_APP\<close> and \<^verbatim>\<open>SST_FUNCTION_ID\<close> set by the user, the constructor succeeds
  and both keys carry the injected values.
\<close>

theorem reserved_key_collision_counterexample:
  "\<not> isl collidingExample
   \<and> fmlookup (resEnvironment (fst (projr collidingExample)))
        ''SST_FUNCTION_ID'' = Some ''stack-Api''
   \<and> fmlookup (resEnvironment (fst (projr collidingExample)))
        ''SST_APP'' = Some ''my-app''"
  by (simp add: collidingExample_def construct_eval example_defs collidingProps_def afterSuper_environment
      environmentAfterSuper_def grant_def bridgeResource_def placeholderResource_def)

theorem reserved_keys_replace_user_values_witness:
  "construct joinSegments ''/sst/app/dev'' (exampleScope exampleApp) ''Api''
      (collidingProps\<lparr>environment := Absent, runtime := Defined ''ruby2.7''\<rparr>) emptyTree = Inl UnsupportedRuntime
   \<and> fmlookup (resEnvironment (fst (projr collidingExample)))
        ''SST_APP'' = Some ''my-app''
   \<and> fmlookup (resEnvironment (fst (projr collidingExample)))
        ''SST_STAGE'' = Some ''dev''
   \<and> fmlookup (resEnvironment (fst (projr collidingExample)))
        ''SST_SSM_PREFIX'' = Some ''/sst/app/dev''
   \<and> fmlookup (resEnvironment (fst (projr collidingExample)))
        ''SST_FUNCTION_ID'' = Some ''stack-Api''"
proof -
  let ?c = "construct joinSegments ''/sst/app/dev'' (exampleScope exampleApp) ''Api'' collidingProps emptyTree"
  have c: "collidingExample = ?c"
    by (simp add: collidingExample_def)
  have "\<not> isl ?c"
    by (simp add: construct_eval example_defs collidingProps_def)
  then have ok: "?c = Inr (fst (projr ?c), snd (projr ?c))"
    by (cases ?c) simp_all
  have m: "p = applyDefaults (defaultFunctionProps (exampleScope exampleApp)) p" for p
    by (simp add: applyDefaults_def exampleScope_def)
  have bad: "construct joinSegments ''/sst/app/dev'' (exampleScope exampleApp) ''Api''
      (collidingProps\<lparr>runtime := Defined ''ruby2.7''\<rparr>) emptyTree = Inl UnsupportedRuntime"
    by (simp add: construct_eval example_defs collidingProps_def)
  show ?thesis
    using reserved_keys_replace_user_values [OF m [of collidingProps], where join = joinSegments
        and ssmPrefix = "''/sst/app/dev''" and fid = "''Api''"
        and t = emptyTree and r = "fst (projr ?c)" and t' = "snd (projr ?c)" and e = Absent
        and err = UnsupportedRuntime]
      reserved_keys_replace_user_values [OF m [of "collidingProps\<lparr>runtime := Defined ''ruby2.7''\<rparr>"],
        where join = joinSegments and ssmPrefix = "''/sst/app/dev''" and fid = "''Api''"
        and t = emptyTree and r = "fst (projr ?c)" and t' = "snd (projr ?c)" and e = Absent
        and err = UnsupportedRuntime]
      ok bad
    unfolding c
    by (simp add: boundKeys_def example_defs collidingProps_def localIdOf_def)
qed

section \<open>Copying files into the build directory\<close>










section \<open>Layers of other stacks\<close>







end
